theory Spec2Isabelle
  imports Main
begin

section \<open>Authentication callbacks of \<^verbatim>\<open>src/server/auth.ts\<close>\<close>

text \<open>
  The file configures an authentication framework with a \<^verbatim>\<open>session\<close> callback, a
  \<^verbatim>\<open>createUser\<close> event handler and a GitHub \<^verbatim>\<open>profile\<close> mapping. The callbacks
  are asynchronous functions that await a credits service and a relational store and
  mutate the session object they are given. They are embedded as functions that
  thread the state of the outside world and a log of the calls issued; a rejected
  promise or a runtime error is a value \<open>Inl e\<close>.
\<close>

subsection \<open>Values\<close>

text \<open>
  What an awaited call or a property store can throw: the rejection of a service's
  promise (with whatever the service reports), or the runtime's \<^verbatim>\<open>TypeError\<close> for a
  property store on \<^verbatim>\<open>undefined\<close>.
\<close>

datatype error = Rejected string | TypeError

text \<open>
  Credit balances are whole numbers of credits (type \<^verbatim>\<open>number\<close> in the session's
  declaration); a number is falsy exactly when it is zero. A \<^verbatim>\<open>string | null\<close> value is
  truthy when it is a non-empty string.
\<close>

definition truthy_number :: "int \<Rightarrow> bool" where
  "truthy_number n = (n \<noteq> 0)"

definition truthy_string :: "string option \<Rightarrow> bool" where
  "truthy_string v = (case v of None \<Rightarrow> False | Some s \<Rightarrow> s \<noteq> [])"

subsection \<open>Data\<close>

text \<open>The adapter's database user (\<^verbatim>\<open>user\<close>, \<^verbatim>\<open>message.user\<close>); only its \<^verbatim>\<open>id\<close> is read.\<close>

record adapter_user =
  id_u :: string

record message =
  user_m :: adapter_user

text \<open>
  A row of the idea table. \<open>authorId\<close> and the \<open>savedBy\<close> relation (the ids of the
  users who saved the idea) are what the queries filter on; the other columns and the
  included relations (\<^verbatim>\<open>author\<close>, \<^verbatim>\<open>components\<close>) are the record's extension.
\<close>

record idea =
  authorId :: string
  savedBy :: "string list"

text \<open>
  The argument of \<^verbatim>\<open>prisma.idea.findMany\<close>: \<^verbatim>\<open>take\<close>, \<^verbatim>\<open>where\<close> and \<^verbatim>\<open>include\<close>.
  The two \<^verbatim>\<open>where\<close> clauses of the file are \<^verbatim>\<open>{savedBy: {some: {id}}}\<close> and
  \<^verbatim>\<open>{authorId}\<close>; \<^verbatim>\<open>include\<close> is \<^verbatim>\<open>{author, components: {include: {component}}}\<close>.
\<close>

datatype where_clause = SavedBySomeId string | AuthorId string

record findMany_args =
  take_arg :: nat
  where_arg :: where_clause
  include_author :: bool
  include_components_component :: bool

text \<open>
  The session object. The augmented declaration of the file gives \<^verbatim>\<open>session.user\<close>
  the fields \<^verbatim>\<open>id\<close>, \<^verbatim>\<open>credits\<close>, \<^verbatim>\<open>savedIdeas\<close> and \<^verbatim>\<open>ideas\<close> on top of the
  framework's \<^verbatim>\<open>name\<close>, \<^verbatim>\<open>email\<close> and \<^verbatim>\<open>image\<close>; \<^verbatim>\<open>user\<close> itself may be absent.
  Any further field of either object is the record's extension. \<open>'dto\<close> is the
  transfer representation \<^verbatim>\<open>GeneratedIdea\<close>.
\<close>

record 'dto session_user =
  name_s :: "string option"
  email_s :: "string option"
  image_s :: "string option"
  id_s :: string
  credits :: int
  savedIdeas :: "'dto list"
  ideas :: "'dto list"

record ('dto, 'x) session =
  user :: "('dto, 'x) session_user_scheme option"
  expires :: string

subsection \<open>The services the callbacks await\<close>

text \<open>
  \<^verbatim>\<open>CreditsService.balance\<close>, \<^verbatim>\<open>CreditsService.reward\<close> and
  \<^verbatim>\<open>prisma.idea.findMany\<close> are imported by the file; they are parameters here.
  Each takes the state \<open>'w\<close> of the outside world (the ledger, the database, the
  network) and returns its answer, or the rejection, with the state it leaves.
\<close>

record ('w, 'r) services =
  balance :: "string \<Rightarrow> 'w \<Rightarrow> (error + int) \<times> 'w"
  reward :: "string \<Rightarrow> int \<Rightarrow> 'w \<Rightarrow> (error + unit) \<times> 'w"
  findMany :: "findMany_args \<Rightarrow> 'w \<Rightarrow> (error + 'r idea_scheme list) \<times> 'w"

text \<open>The calls a callback issues are logged in the order they are issued.\<close>

datatype call = Balance string | Reward string int | FindMany findMany_args

record 'w io =
  world :: 'w
  calls :: "call list"

definition call_balance ::
  "('w, 'r) services \<Rightarrow> string \<Rightarrow> 'w io \<Rightarrow> (error + int) \<times> 'w io" where
  "call_balance svc uid st =
     (case balance svc uid (world st) of
        (r, w') \<Rightarrow> (r, \<lparr>world = w', calls = calls st @ [Balance uid]\<rparr>))"

definition call_reward ::
  "('w, 'r) services \<Rightarrow> string \<Rightarrow> int \<Rightarrow> 'w io \<Rightarrow> (error + unit) \<times> 'w io" where
  "call_reward svc uid amount st =
     (case reward svc uid amount (world st) of
        (r, w') \<Rightarrow> (r, \<lparr>world = w', calls = calls st @ [Reward uid amount]\<rparr>))"

definition call_findMany ::
  "('w, 'r) services \<Rightarrow> findMany_args \<Rightarrow> 'w io \<Rightarrow> (error + 'r idea_scheme list) \<times> 'w io" where
  "call_findMany svc args st =
     (case findMany svc args (world st) of
        (r, w') \<Rightarrow> (r, \<lparr>world = w', calls = calls st @ [FindMany args]\<rparr>))"

subsection \<open>The \<^verbatim>\<open>createUser\<close> event handler\<close>

text \<open>
  \<^verbatim>\<open>
  async createUser(message) {
    const balance = await CreditsService.balance(message.user.id);
    if (!balance) {
      await CreditsService.reward(message.user.id, 3);
    }
  }
  \<close>
\<close>

definition createUser ::
  "('w, 'r) services \<Rightarrow> message \<Rightarrow> 'w io \<Rightarrow> (error + unit) \<times> 'w io" where
  "createUser svc message st =
     (case call_balance svc (id_u (user_m message)) st of
        (Inl e, st1) \<Rightarrow> (Inl e, st1)
      | (Inr b, st1) \<Rightarrow>
          if \<not> truthy_number b then
            (case call_reward svc (id_u (user_m message)) 3 st1 of
               (Inl e, st2) \<Rightarrow> (Inl e, st2)
             | (Inr _, st2) \<Rightarrow> (Inr (), st2))
          else (Inr (), st1))"

subsection \<open>The \<^verbatim>\<open>session\<close> callback\<close>

text \<open>The two queries of the callback.\<close>

definition saved_args :: "adapter_user \<Rightarrow> findMany_args" where
  "saved_args u =
     \<lparr>take_arg = 3, where_arg = SavedBySomeId (id_u u),
      include_author = True, include_components_component = True\<rparr>"

definition authored_args :: "adapter_user \<Rightarrow> findMany_args" where
  "authored_args u =
     \<lparr>take_arg = 3, where_arg = AuthorId (id_u u),
      include_author = True, include_components_component = True\<rparr>"

text \<open>
  A store \<^verbatim>\<open>session.user.f = v\<close>: it updates the user object, and throws a
  \<^verbatim>\<open>TypeError\<close> when \<^verbatim>\<open>session.user\<close> is absent. The engine evaluates the right-hand
  side (and so awaits the call in it) before it performs the store.
\<close>

definition set_user_field ::
  "(('dto, 'x) session_user_scheme \<Rightarrow> ('dto, 'x) session_user_scheme) \<Rightarrow>
   ('dto, 'x, 'y) session_scheme \<Rightarrow> error + ('dto, 'x, 'y) session_scheme" where
  "set_user_field f s =
     (case user s of
        None \<Rightarrow> Inl TypeError
      | Some su \<Rightarrow> Inr (s\<lparr>user := Some (f su)\<rparr>))"

text \<open>
  What an invocation leaves: the value it returns or the error it throws, the session
  object as the invocation left it (the callback mutates the object it was given, so
  the stores made before a failure remain), and the world with the calls issued.
\<close>

record ('s, 'w) outcome =
  result :: "error + 's"
  session_after :: 's
  io_after :: "'w io"

text \<open>
  Lines 61 to 78, outside the \<^verbatim>\<open>if\<close>:
  \<^verbatim>\<open>
  session.user.ideas = (await prisma.idea.findMany({take: 3, where: {authorId: user.id}, ...}))
    .map((idea) => ideaToIdeaDto(idea, false));
  return session;
  \<close>
  \<^verbatim>\<open>ideaToIdeaDto\<close> is imported by the file; it is the parameter \<open>ideaToIdeaDto\<close>, a
  function of the row and the flag.
\<close>

definition authored_part ::
  "('w, 'r) services \<Rightarrow> ('r idea_scheme \<Rightarrow> bool \<Rightarrow> 'dto) \<Rightarrow>
   ('dto, 'x, 'y) session_scheme \<Rightarrow> adapter_user \<Rightarrow> 'w io \<Rightarrow>
   (('dto, 'x, 'y) session_scheme, 'w) outcome" where
  "authored_part svc ideaToIdeaDto s u st =
     (case call_findMany svc (authored_args u) st of
        (Inl e, st1) \<Rightarrow> \<lparr>result = Inl e, session_after = s, io_after = st1\<rparr>
      | (Inr rows, st1) \<Rightarrow>
          (case set_user_field (\<lambda>x. x\<lparr>ideas := map (\<lambda>idea. ideaToIdeaDto idea False) rows\<rparr>) s of
             Inl e \<Rightarrow> \<lparr>result = Inl e, session_after = s, io_after = st1\<rparr>
           | Inr s1 \<Rightarrow> \<lparr>result = Inr s1, session_after = s1, io_after = st1\<rparr>))"

text \<open>
  The whole callback:
  \<^verbatim>\<open>
  async session({ session, user }) {
    if (session.user) {
      session.user.id = user.id;
      session.user.credits = await CreditsService.balance(user.id);
      session.user.savedIdeas = (await prisma.idea.findMany({take: 3,
          where: {savedBy: {some: {id: user.id}}}, ...}))
        .map((idea) => ideaToIdeaDto(idea, true));
    }
    ... lines 61 to 78 ...
  }
  \<close>
\<close>

text \<open>The callback \<^verbatim>\<open>callbacks.session\<close> is \<open>session_cb\<close>: \<open>session\<close> names the record.\<close>

definition session_cb ::
  "('w, 'r) services \<Rightarrow> ('r idea_scheme \<Rightarrow> bool \<Rightarrow> 'dto) \<Rightarrow>
   ('dto, 'x, 'y) session_scheme \<Rightarrow> adapter_user \<Rightarrow> 'w io \<Rightarrow>
   (('dto, 'x, 'y) session_scheme, 'w) outcome" where
  "session_cb svc ideaToIdeaDto s u st =
     (if user s \<noteq> None then
        (case set_user_field (\<lambda>x. x\<lparr>id_s := id_u u\<rparr>) s of
           Inl e \<Rightarrow> \<lparr>result = Inl e, session_after = s, io_after = st\<rparr>
         | Inr s1 \<Rightarrow>
        (case call_balance svc (id_u u) st of
           (Inl e, st1) \<Rightarrow> \<lparr>result = Inl e, session_after = s1, io_after = st1\<rparr>
         | (Inr b, st1) \<Rightarrow>
        (case set_user_field (\<lambda>x. x\<lparr>credits := b\<rparr>) s1 of
           Inl e \<Rightarrow> \<lparr>result = Inl e, session_after = s1, io_after = st1\<rparr>
         | Inr s2 \<Rightarrow>
        (case call_findMany svc (saved_args u) st1 of
           (Inl e, st2) \<Rightarrow> \<lparr>result = Inl e, session_after = s2, io_after = st2\<rparr>
         | (Inr rows, st2) \<Rightarrow>
        (case set_user_field (\<lambda>x. x\<lparr>savedIdeas := map (\<lambda>idea. ideaToIdeaDto idea True) rows\<rparr>) s2 of
           Inl e \<Rightarrow> \<lparr>result = Inl e, session_after = s2, io_after = st2\<rparr>
         | Inr s3 \<Rightarrow> authored_part svc ideaToIdeaDto s3 u st2)))))
      else authored_part svc ideaToIdeaDto s u st)"

subsection \<open>The GitHub provider's \<^verbatim>\<open>profile\<close> mapping\<close>

text \<open>
  \<^verbatim>\<open>
  profile(profile) {
    return {
      id: profile.id.toString(),
      name: profile.name || profile.login,
      email: profile.email,
      image: profile.avatar_url
    };
  }
  \<close>
  GitHub's profile has a numeric \<^verbatim>\<open>id\<close> (an integer), \<^verbatim>\<open>name\<close> and \<^verbatim>\<open>email\<close> of type
  \<^verbatim>\<open>string | null\<close>, and strings \<^verbatim>\<open>login\<close> and \<^verbatim>\<open>avatar_url\<close>.
\<close>

record github_profile =
  id_p :: int
  name_p :: "string option"
  login :: string
  email_p :: "string option"
  avatar_url :: string

record provider_user =
  id_o :: string
  name_o :: string
  email_o :: "string option"
  image_o :: string

text \<open>
  \<^verbatim>\<open>Number.prototype.toString\<close>. A number is a double: it holds every integer of
  magnitude up to \<open>2^53 - 1\<close> (\<^verbatim>\<open>Number.MAX_SAFE_INTEGER\<close>) exactly, and prints such an
  integer as its decimal numeral, with a leading \<^verbatim>\<open>-\<close> when it is negative. Beyond that
  range the digits are those of the nearest double, and from \<^verbatim>\<open>1e21\<close> on the engine
  writes an exponent; what it prints there is left open, as the parameter \<open>printed\<close>.
\<close>

definition safe_integer :: "int \<Rightarrow> bool" where
  "safe_integer i = (- 9007199254740991 \<le> i \<and> i \<le> 9007199254740991)"

definition digit :: "nat \<Rightarrow> char" where
  "digit d = ''0123456789'' ! d"

fun digits :: "nat \<Rightarrow> string" where
  "digits n = (if n < 10 then [digit n] else digits (n div 10) @ [digit (n mod 10)])"

definition decimal :: "int \<Rightarrow> string" where
  "decimal i = (if i < 0 then CHR ''-'' # digits (nat (- i)) else digits (nat i))"

definition toString :: "(int \<Rightarrow> string) \<Rightarrow> int \<Rightarrow> string" where
  "toString printed i = (if safe_integer i then decimal i else printed i)"

definition profile :: "(int \<Rightarrow> string) \<Rightarrow> github_profile \<Rightarrow> provider_user" where
  "profile printed p =
     \<lparr>id_o = toString printed (id_p p),
      name_o = (if truthy_string (name_p p) then the (name_p p) else login p),
      email_o = email_p p,
      image_o = avatar_url p\<rparr>"

declare digits.simps [simp del]

subsection \<open>What the store promises\<close>

text \<open>
  The query layer is a third-party library. Its documented contract for \<^verbatim>\<open>findMany\<close>
  is all the callbacks rely on: a query that resolves returns rows that satisfy the
  \<^verbatim>\<open>where\<close> clause, at most \<^verbatim>\<open>take\<close> of them.
\<close>

fun matches :: "where_clause \<Rightarrow> 'r idea_scheme \<Rightarrow> bool" where
  "matches (SavedBySomeId uid) i = (uid \<in> set (savedBy i))"
| "matches (AuthorId uid) i = (authorId i = uid)"

definition findMany_contract :: "('w, 'r) services \<Rightarrow> bool" where
  "findMany_contract svc =
     (\<forall>args w rows w'. findMany svc args w = (Inr rows, w') \<longrightarrow>
        length rows \<le> take_arg args \<and> (\<forall>i \<in> set rows. matches (where_arg args) i))"

subsection \<open>An in-memory instance of the services\<close>

text \<open>
  A ledger of balances and a table of ideas, with an outage after a given number of
  answered calls (\<open>credits_up\<close>, \<open>db_up\<close>). It instantiates the services in the concrete
  runs below; the theorems hold for every instance.
\<close>

record mem_world =
  ledger :: "string \<Rightarrow> int"
  table :: "idea list"
  credits_up :: nat
  db_up :: nat

definition mem_services :: "(mem_world, unit) services" where
  "mem_services =
     \<lparr>balance = (\<lambda>uid w.
        if credits_up w = 0 then (Inl (Rejected ''credits''), w)
        else (Inr (ledger w uid), w\<lparr>credits_up := credits_up w - 1\<rparr>)),
      reward = (\<lambda>uid amount w.
        if credits_up w = 0 then (Inl (Rejected ''credits''), w)
        else (Inr (), w\<lparr>ledger := (ledger w)(uid := ledger w uid + amount),
                         credits_up := credits_up w - 1\<rparr>)),
      findMany = (\<lambda>args w.
        if db_up w = 0 then (Inl (Rejected ''database''), w)
        else (Inr (take (take_arg args) (filter (matches (where_arg args)) (table w))),
              w\<lparr>db_up := db_up w - 1\<rparr>))\<rparr>"

text \<open>
  Five ideas: four written by \<open>alice\<close>, of which \<open>bob\<close> saved two, and one written by
  \<open>bob\<close> that \<open>alice\<close> saved. The transfer representation in the runs is the idea's
  author, the users who saved it and the flag.
\<close>

definition an_idea :: "string \<Rightarrow> string list \<Rightarrow> idea" where
  "an_idea a sv = \<lparr>authorId = a, savedBy = sv\<rparr>"

definition the_table :: "idea list" where
  "the_table =
     [an_idea ''alice'' [''bob''], an_idea ''bob'' [''alice''],
      an_idea ''alice'' [], an_idea ''alice'' [''bob'', ''carol''],
      an_idea ''alice'' [''carol'']]"

definition a_world :: "nat \<Rightarrow> nat \<Rightarrow> mem_world" where
  "a_world c d =
     \<lparr>ledger = (\<lambda>_. 0)(''alice'' := 7), table = the_table, credits_up = c, db_up = d\<rparr>"

definition start :: "nat \<Rightarrow> nat \<Rightarrow> mem_world io" where
  "start c d = \<lparr>world = a_world c d, calls = []\<rparr>"

type_synonym a_generated_idea = "string \<times> string list \<times> bool"

definition a_dto :: "idea \<Rightarrow> bool \<Rightarrow> a_generated_idea" where
  "a_dto i saved = (authorId i, savedBy i, saved)"

definition alice :: adapter_user where
  "alice = \<lparr>id_u = ''alice''\<rparr>"

definition bob :: adapter_user where
  "bob = \<lparr>id_u = ''bob''\<rparr>"

definition a_session_user :: "a_generated_idea session_user" where
  "a_session_user =
     \<lparr>name_s = Some ''Alice'', email_s = None, image_s = Some ''a.png'',
      id_s = ''stale'', credits = 0, savedIdeas = [], ideas = []\<rparr>"

definition a_session :: "(a_generated_idea, unit) session" where
  "a_session = \<lparr>user = Some a_session_user, expires = ''2030-01-01''\<rparr>"

definition no_user_session :: "(a_generated_idea, unit) session" where
  "no_user_session = \<lparr>user = None, expires = ''2030-01-01''\<rparr>"

text \<open>The session \<open>a_session\<close> after a complete hydration for \<open>alice\<close>.\<close>

definition alice_hydrated :: "(a_generated_idea, unit) session" where
  "alice_hydrated =
     a_session\<lparr>user := Some (a_session_user\<lparr>id_s := ''alice'', credits := 7,
       savedIdeas := [(''bob'', [''alice''], True)],
       ideas := [(''alice'', [''bob''], False), (''alice'', [], False),
                 (''alice'', [''bob'', ''carol''], False)]\<rparr>)\<rparr>"

definition all_calls :: "adapter_user \<Rightarrow> call list" where
  "all_calls u = [Balance (id_u u), FindMany (saved_args u), FindMany (authored_args u)]"

section \<open>Properties\<close>

subsection \<open>The callbacks, call by call\<close>

text \<open>
  With a user on the session, the callback awaits the balance, the saved ideas and the
  authored ideas in turn; the first call that fails ends it.
\<close>

lemma session_cb_Some:
  assumes "user s = Some su"
  shows "session_cb svc dto s u st =
    (case balance svc (id_u u) (world st) of
       (Inl e, w1) \<Rightarrow>
         \<lparr>result = Inl e, session_after = s\<lparr>user := Some (su\<lparr>id_s := id_u u\<rparr>)\<rparr>,
          io_after = \<lparr>world = w1, calls = calls st @ [Balance (id_u u)]\<rparr>\<rparr>
     | (Inr b, w1) \<Rightarrow>
        (case findMany svc (saved_args u) w1 of
           (Inl e, w2) \<Rightarrow>
             \<lparr>result = Inl e,
              session_after = s\<lparr>user := Some (su\<lparr>id_s := id_u u, credits := b\<rparr>)\<rparr>,
              io_after = \<lparr>world = w2,
                calls = calls st @ [Balance (id_u u), FindMany (saved_args u)]\<rparr>\<rparr>
         | (Inr saved, w2) \<Rightarrow>
            (case findMany svc (authored_args u) w2 of
               (Inl e, w3) \<Rightarrow>
                 \<lparr>result = Inl e,
                  session_after = s\<lparr>user := Some (su\<lparr>id_s := id_u u, credits := b,
                    savedIdeas := map (\<lambda>idea. dto idea True) saved\<rparr>)\<rparr>,
                  io_after = \<lparr>world = w3,
                    calls = calls st @ [Balance (id_u u), FindMany (saved_args u),
                      FindMany (authored_args u)]\<rparr>\<rparr>
             | (Inr authored, w3) \<Rightarrow>
                 \<lparr>result = Inr (s\<lparr>user := Some (su\<lparr>id_s := id_u u, credits := b,
                    savedIdeas := map (\<lambda>idea. dto idea True) saved,
                    ideas := map (\<lambda>idea. dto idea False) authored\<rparr>)\<rparr>),
                  session_after = s\<lparr>user := Some (su\<lparr>id_s := id_u u, credits := b,
                    savedIdeas := map (\<lambda>idea. dto idea True) saved,
                    ideas := map (\<lambda>idea. dto idea False) authored\<rparr>)\<rparr>,
                  io_after = \<lparr>world = w3,
                    calls = calls st @ [Balance (id_u u), FindMany (saved_args u),
                      FindMany (authored_args u)]\<rparr>\<rparr>)))"
  using assms
  by (simp add: session_cb_def authored_part_def set_user_field_def call_balance_def
      call_findMany_def split: prod.splits sum.splits)

text \<open>Without a user, only the authored ideas are queried, and the store then fails.\<close>

lemma session_cb_None:
  assumes "user s = None"
  shows "session_cb svc dto s u st =
    (case findMany svc (authored_args u) (world st) of
       (Inl e, w1) \<Rightarrow>
         \<lparr>result = Inl e, session_after = s,
          io_after = \<lparr>world = w1, calls = calls st @ [FindMany (authored_args u)]\<rparr>\<rparr>
     | (Inr authored, w1) \<Rightarrow>
         \<lparr>result = Inl TypeError, session_after = s,
          io_after = \<lparr>world = w1, calls = calls st @ [FindMany (authored_args u)]\<rparr>\<rparr>)"
  using assms
  by (simp add: session_cb_def authored_part_def set_user_field_def
      call_findMany_def split: prod.splits sum.splits)


lemma createUser_unfold:
  "createUser svc m st =
    (case balance svc (id_u (user_m m)) (world st) of
       (Inl e, w1) \<Rightarrow>
         (Inl e, \<lparr>world = w1, calls = calls st @ [Balance (id_u (user_m m))]\<rparr>)
     | (Inr b, w1) \<Rightarrow>
         if b = 0 then
           (case reward svc (id_u (user_m m)) 3 w1 of
              (Inl e, w2) \<Rightarrow>
                (Inl e, \<lparr>world = w2, calls = calls st @
                   [Balance (id_u (user_m m)), Reward (id_u (user_m m)) 3]\<rparr>)
            | (Inr x, w2) \<Rightarrow>
                (Inr (), \<lparr>world = w2, calls = calls st @
                   [Balance (id_u (user_m m)), Reward (id_u (user_m m)) 3]\<rparr>))
         else (Inr (), \<lparr>world = w1, calls = calls st @ [Balance (id_u (user_m m))]\<rparr>))"
  by (simp add: createUser_def call_balance_def call_reward_def truthy_number_def
      split: prod.splits sum.splits)

subsection \<open>Runs of the in-memory instance\<close>

text \<open>The definitions a concrete run unfolds.\<close>

lemmas run_defs =
  mem_services_def a_world_def start_def the_table_def an_idea_def a_dto_def
  alice_def bob_def a_session_def a_session_user_def no_user_session_def
  saved_args_def authored_args_def

text \<open>A complete hydration of \<open>a_session\<close> for \<open>alice\<close>.\<close>

lemma run_alice:
  "session_cb mem_services a_dto a_session alice (start 5 5) =
     \<lparr>result = Inr alice_hydrated, session_after = alice_hydrated,
      io_after = \<lparr>world = a_world 4 3, calls = all_calls alice\<rparr>\<rparr>"
  by (simp add: session_cb_def authored_part_def set_user_field_def call_balance_def
      call_findMany_def alice_hydrated_def all_calls_def run_defs)

text \<open>A second hydration of \<open>alice\<close>'s session, in the world the first one left.\<close>

lemma run_alice_again:
  "session_cb mem_services a_dto alice_hydrated alice
     \<lparr>world = a_world 4 3, calls = all_calls alice\<rparr> =
     \<lparr>result = Inr alice_hydrated, session_after = alice_hydrated,
      io_after = \<lparr>world = a_world 3 1, calls = all_calls alice @ all_calls alice\<rparr>\<rparr>"
  by (simp add: session_cb_def authored_part_def set_user_field_def call_balance_def
      call_findMany_def alice_hydrated_def all_calls_def run_defs)

text \<open>A run in which the credits service is down from the start.\<close>

lemma run_credits_down:
  "session_cb mem_services a_dto a_session alice (start 0 5) =
     \<lparr>result = Inl (Rejected ''credits''),
      session_after = a_session\<lparr>user := Some (a_session_user\<lparr>id_s := ''alice''\<rparr>)\<rparr>,
      io_after = \<lparr>world = a_world 0 5, calls = [Balance ''alice'']\<rparr>\<rparr>"
  by (simp add: session_cb_def authored_part_def set_user_field_def call_balance_def
      call_findMany_def run_defs)

text \<open>The in-memory instance keeps the store's contract.\<close>

lemma mem_services_contract: "findMany_contract mem_services"
proof -
  have "\<forall>i \<in> set (take n (filter P xs)). P i" for n and P :: "idea \<Rightarrow> bool" and xs
    using set_take_subset [of n "filter P xs"] by auto
  then show ?thesis
    by (auto simp add: findMany_contract_def mem_services_def split: if_splits)
qed

subsection \<open>The new-user reward\<close>

text \<open>
  C1. Every \<^verbatim>\<open>createUser\<close> event first asks the credits service for the balance of
  the new user's id. When that balance is zero, the handler calls \<^verbatim>\<open>reward(id, 3)\<close>
  once, in the world the balance call left, and ends as that call ends, in the world it
  leaves; when the balance is not zero it returns with no reward call, and when the
  balance call fails it fails with no reward call. The calls issued are the balance
  call, followed by the reward call exactly when the balance read is zero.
\<close>

theorem createUser_rewards_zero_balance:
  "(\<forall>w1 r w2.
      balance svc (id_u (user_m m)) (world st) = (Inr 0, w1) \<and>
      reward svc (id_u (user_m m)) 3 w1 = (r, w2) \<longrightarrow>
      createUser svc m st =
        (case r of Inl e \<Rightarrow> Inl e | Inr x \<Rightarrow> Inr (),
         \<lparr>world = w2, calls = calls st @
            [Balance (id_u (user_m m)), Reward (id_u (user_m m)) 3]\<rparr>)) \<and>
   (\<forall>b w1.
      balance svc (id_u (user_m m)) (world st) = (Inr b, w1) \<and> b \<noteq> 0 \<longrightarrow>
      createUser svc m st =
        (Inr (), \<lparr>world = w1, calls = calls st @ [Balance (id_u (user_m m))]\<rparr>)) \<and>
   (\<forall>e w1.
      balance svc (id_u (user_m m)) (world st) = (Inl e, w1) \<longrightarrow>
      createUser svc m st =
        (Inl e, \<lparr>world = w1, calls = calls st @ [Balance (id_u (user_m m))]\<rparr>)) \<and>
   calls (snd (createUser svc m st)) =
     calls st @
     (case fst (balance svc (id_u (user_m m)) (world st)) of
        Inl e \<Rightarrow> [Balance (id_u (user_m m))]
      | Inr b \<Rightarrow>
          if b = 0 then [Balance (id_u (user_m m)), Reward (id_u (user_m m)) 3]
          else [Balance (id_u (user_m m))])"
proof (intro conjI allI impI)
  fix w1 r w2
  assume "balance svc (id_u (user_m m)) (world st) = (Inr 0, w1) \<and>
      reward svc (id_u (user_m m)) 3 w1 = (r, w2)"
  then show "createUser svc m st =
        (case r of Inl e \<Rightarrow> Inl e | Inr x \<Rightarrow> Inr (),
         \<lparr>world = w2, calls = calls st @
            [Balance (id_u (user_m m)), Reward (id_u (user_m m)) 3]\<rparr>)"
    by (simp add: createUser_unfold split: sum.splits)
next
  fix b w1
  assume "balance svc (id_u (user_m m)) (world st) = (Inr b, w1) \<and> b \<noteq> 0"
  then show "createUser svc m st =
        (Inr (), \<lparr>world = w1, calls = calls st @ [Balance (id_u (user_m m))]\<rparr>)"
    by (simp add: createUser_unfold)
next
  fix e w1
  assume "balance svc (id_u (user_m m)) (world st) = (Inl e, w1)"
  then show "createUser svc m st =
        (Inl e, \<lparr>world = w1, calls = calls st @ [Balance (id_u (user_m m))]\<rparr>)"
    by (simp add: createUser_unfold)
next
  show "calls (snd (createUser svc m st)) =
     calls st @
     (case fst (balance svc (id_u (user_m m)) (world st)) of
        Inl e \<Rightarrow> [Balance (id_u (user_m m))]
      | Inr b \<Rightarrow>
          if b = 0 then [Balance (id_u (user_m m)), Reward (id_u (user_m m)) 3]
          else [Balance (id_u (user_m m))])"
    by (simp add: createUser_unfold split: prod.splits sum.splits)
qed

text \<open>
  In the in-memory instance \<open>bob\<close> has no credits: the handler rewards him, and his
  balance in the ledger goes from 0 to 3. \<open>alice\<close> has 7 credits: the handler returns
  after the balance call, and the ledger is as it was.
\<close>

theorem createUser_rewards_zero_balance_witness:
  "ledger (world (start 5 5)) ''bob'' = 0 \<and>
   createUser mem_services \<lparr>user_m = bob\<rparr> (start 5 5) =
     (Inr (),
      \<lparr>world = (a_world 3 5)\<lparr>ledger := (ledger (a_world 3 5))(''bob'' := 3)\<rparr>,
       calls = [Balance ''bob'', Reward ''bob'' 3]\<rparr>) \<and>
   ledger (world (snd (createUser mem_services \<lparr>user_m = bob\<rparr> (start 5 5)))) ''bob'' = 3 \<and>
   ledger (world (start 5 5)) ''alice'' = 7 \<and>
   createUser mem_services \<lparr>user_m = alice\<rparr> (start 5 5) =
     (Inr (), \<lparr>world = a_world 4 5, calls = [Balance ''alice'']\<rparr>)"
proof -
  have b: "balance mem_services (id_u (user_m \<lparr>user_m = bob\<rparr>)) (world (start 5 5)) =
      (Inr 0, a_world 4 5) \<and>
    reward mem_services (id_u (user_m \<lparr>user_m = bob\<rparr>)) 3 (a_world 4 5) =
      (Inr (), (a_world 3 5)\<lparr>ledger := (ledger (a_world 3 5))(''bob'' := 3)\<rparr>)"
    by (simp add: run_defs)
  have a: "balance mem_services (id_u (user_m \<lparr>user_m = alice\<rparr>)) (world (start 5 5)) =
      (Inr 7, a_world 4 5) \<and> (7::int) \<noteq> 0"
    by (simp add: run_defs)
  have l: "ledger (world (start 5 5)) ''bob'' = 0" "ledger (world (start 5 5)) ''alice'' = 7"
    by (simp_all add: run_defs)
  from createUser_rewards_zero_balance [of mem_services "\<lparr>user_m = bob\<rparr>" "start 5 5"] b
  have rb: "createUser mem_services \<lparr>user_m = bob\<rparr> (start 5 5) =
     (Inr (),
      \<lparr>world = (a_world 3 5)\<lparr>ledger := (ledger (a_world 3 5))(''bob'' := 3)\<rparr>,
       calls = calls (start 5 5) @ [Balance (id_u (user_m \<lparr>user_m = bob\<rparr>)),
         Reward (id_u (user_m \<lparr>user_m = bob\<rparr>)) 3]\<rparr>)"
    by fastforce
  from createUser_rewards_zero_balance [of mem_services "\<lparr>user_m = alice\<rparr>" "start 5 5"] a
  have ra: "createUser mem_services \<lparr>user_m = alice\<rparr> (start 5 5) =
     (Inr (), \<lparr>world = a_world 4 5,
        calls = calls (start 5 5) @ [Balance (id_u (user_m \<lparr>user_m = alice\<rparr>))]\<rparr>)"
    by fastforce
  from rb ra l show ?thesis
    by (simp add: start_def bob_def alice_def)
qed

subsection \<open>Session hydration\<close>

text \<open>
  C2. Whenever the session callback returns a session, the session had a user, and the
  returned session's \<^verbatim>\<open>user.credits\<close> is the value that
  \<^verbatim>\<open>CreditsService.balance(user.id)\<close> returned for the authenticated user's id.
\<close>

theorem session_credits_from_balance:
  assumes "result (session_cb svc dto s u st) = Inr s'"
  shows "\<exists>b w1 su'. balance svc (id_u u) (world st) = (Inr b, w1) \<and>
           user s \<noteq> None \<and> user s' = Some su' \<and> credits su' = b"
proof (cases "user s")
  case None
  with assms show ?thesis
    by (simp add: session_cb_None split: prod.splits sum.splits)
next
  case (Some su)
  with assms show ?thesis
    by (auto simp add: session_cb_Some split: prod.splits sum.splits)
qed

text \<open>For \<open>alice\<close>, whose balance is 7, the returned session carries 7 credits.\<close>

theorem session_credits_from_balance_witness:
  "result (session_cb mem_services a_dto a_session alice (start 5 5)) = Inr alice_hydrated \<and>
   (\<exists>b w1 su'. balance mem_services (id_u alice) (world (start 5 5)) = (Inr b, w1) \<and>
      user a_session \<noteq> None \<and> user alice_hydrated = Some su' \<and> credits su' = b) \<and>
   map_option credits (user alice_hydrated) = Some 7"
proof -
  have r: "result (session_cb mem_services a_dto a_session alice (start 5 5)) =
      Inr alice_hydrated"
    by (simp add: run_alice)
  have "map_option credits (user alice_hydrated) = Some 7"
    by (simp add: alice_hydrated_def)
  with session_credits_from_balance [OF r] r show ?thesis by blast
qed

text \<open>
  C3. Whenever the session callback returns a session, and the store keeps its
  contract, the returned \<^verbatim>\<open>user.savedIdeas\<close> is the image of at most 3 ideas, each
  saved by the authenticated user (\<^verbatim>\<open>savedBy\<close> includes \<^verbatim>\<open>user.id\<close>), and the
  returned \<^verbatim>\<open>user.ideas\<close> is the image of at most 3 ideas, each with
  \<^verbatim>\<open>authorId = user.id\<close>; both lists have length at most 3.
\<close>

theorem session_ideas_bounded:
  assumes "findMany_contract svc"
    and "result (session_cb svc dto s u st) = Inr s'"
  shows "\<exists>su' saved authored. user s' = Some su' \<and>
     savedIdeas su' = map (\<lambda>idea. dto idea True) saved \<and> length saved \<le> 3 \<and>
     (\<forall>i \<in> set saved. id_u u \<in> set (savedBy i)) \<and>
     ideas su' = map (\<lambda>idea. dto idea False) authored \<and> length authored \<le> 3 \<and>
     (\<forall>i \<in> set authored. authorId i = id_u u) \<and>
     length (savedIdeas su') \<le> 3 \<and> length (ideas su') \<le> 3"
proof (cases "user s")
  case None
  with assms(2) show ?thesis
    by (simp add: session_cb_None split: prod.splits sum.splits)
next
  case (Some su)
  with assms(2) obtain b w1 saved w2 authored w3 where
    q1: "findMany svc (saved_args u) w1 = (Inr saved, w2)" and
    q2: "findMany svc (authored_args u) w2 = (Inr authored, w3)" and
    s': "s' = s\<lparr>user := Some (su\<lparr>id_s := id_u u, credits := b,
          savedIdeas := map (\<lambda>idea. dto idea True) saved,
          ideas := map (\<lambda>idea. dto idea False) authored\<rparr>)\<rparr>"
    by (auto simp add: session_cb_Some split: prod.splits sum.splits)
  from assms(1) q1 have c1: "length saved \<le> 3" "\<forall>i \<in> set saved. id_u u \<in> set (savedBy i)"
    unfolding findMany_contract_def by (fastforce simp add: saved_args_def)+
  from assms(1) q2 have c2: "length authored \<le> 3" "\<forall>i \<in> set authored. authorId i = id_u u"
    unfolding findMany_contract_def by (fastforce simp add: authored_args_def)+
  show ?thesis
    apply (rule exI [of _ "su\<lparr>id_s := id_u u, credits := b,
          savedIdeas := map (\<lambda>idea. dto idea True) saved,
          ideas := map (\<lambda>idea. dto idea False) authored\<rparr>"])
    apply (rule exI [of _ saved])
    apply (rule exI [of _ authored])
    using c1 c2 s' by simp
qed


text \<open>
  \<open>alice\<close> wrote four ideas and saved one: her session gets one saved idea and three
  authored ones.
\<close>

theorem session_ideas_bounded_witness:
  "findMany_contract mem_services \<and>
   result (session_cb mem_services a_dto a_session alice (start 5 5)) = Inr alice_hydrated \<and>
   (\<exists>su' saved authored. user alice_hydrated = Some su' \<and>
     savedIdeas su' = map (\<lambda>idea. a_dto idea True) saved \<and> length saved \<le> 3 \<and>
     (\<forall>i \<in> set saved. id_u alice \<in> set (savedBy i)) \<and>
     ideas su' = map (\<lambda>idea. a_dto idea False) authored \<and> length authored \<le> 3 \<and>
     (\<forall>i \<in> set authored. authorId i = id_u alice) \<and>
     length (savedIdeas su') \<le> 3 \<and> length (ideas su') \<le> 3)"
proof -
  have r: "result (session_cb mem_services a_dto a_session alice (start 5 5)) =
      Inr alice_hydrated"
    by (simp add: run_alice)
  from session_ideas_bounded [OF mem_services_contract r] mem_services_contract r
  show ?thesis by blast
qed

text \<open>
  C4. The callback returns a session exactly when the session has a user and the
  three calls succeed, and then every idea fetched is attached through
  \<^verbatim>\<open>ideaToIdeaDto\<close>: the saved ideas with the flag \<^verbatim>\<open>true\<close>, the authored ideas with
  the flag \<^verbatim>\<open>false\<close>, in the order the store returned them.
\<close>

theorem session_maps_fetched_ideas:
  "result (session_cb svc dto s u st) = Inr s' \<longleftrightarrow>
   (\<exists>su b w1 saved w2 authored w3.
      user s = Some su \<and>
      balance svc (id_u u) (world st) = (Inr b, w1) \<and>
      findMany svc (saved_args u) w1 = (Inr saved, w2) \<and>
      findMany svc (authored_args u) w2 = (Inr authored, w3) \<and>
      s' = s\<lparr>user := Some (su\<lparr>id_s := id_u u, credits := b,
             savedIdeas := map (\<lambda>idea. dto idea True) saved,
             ideas := map (\<lambda>idea. dto idea False) authored\<rparr>)\<rparr>)"
proof (cases "user s")
  case None
  then show ?thesis
    by (simp add: session_cb_None split: prod.splits sum.splits)
next
  case (Some su)
  then show ?thesis
    by (auto simp add: session_cb_Some split: prod.splits sum.splits)
qed

text \<open>The lists of \<open>alice\<close>'s session are the images of the rows the table holds.\<close>

theorem session_maps_fetched_ideas_witness:
  "savedIdeas (the (user alice_hydrated)) =
     map (\<lambda>idea. a_dto idea True) [an_idea ''bob'' [''alice'']] \<and>
   ideas (the (user alice_hydrated)) =
     map (\<lambda>idea. a_dto idea False)
       [an_idea ''alice'' [''bob''], an_idea ''alice'' [], an_idea ''alice'' [''bob'', ''carol'']] \<and>
   (\<exists>su b w1 saved w2 authored w3.
      user a_session = Some su \<and>
      balance mem_services (id_u alice) (world (start 5 5)) = (Inr b, w1) \<and>
      findMany mem_services (saved_args alice) w1 = (Inr saved, w2) \<and>
      findMany mem_services (authored_args alice) w2 = (Inr authored, w3) \<and>
      alice_hydrated = a_session\<lparr>user := Some (su\<lparr>id_s := id_u alice, credits := b,
             savedIdeas := map (\<lambda>idea. a_dto idea True) saved,
             ideas := map (\<lambda>idea. a_dto idea False) authored\<rparr>)\<rparr>)"
proof -
  have r: "result (session_cb mem_services a_dto a_session alice (start 5 5)) =
      Inr alice_hydrated"
    by (simp add: run_alice)
  have "savedIdeas (the (user alice_hydrated)) =
     map (\<lambda>idea. a_dto idea True) [an_idea ''bob'' [''alice'']]"
    by (simp add: alice_hydrated_def run_defs)
  moreover have "ideas (the (user alice_hydrated)) =
     map (\<lambda>idea. a_dto idea False)
       [an_idea ''alice'' [''bob''], an_idea ''alice'' [], an_idea ''alice'' [''bob'', ''carol'']]"
    by (simp add: alice_hydrated_def run_defs)
  ultimately show ?thesis
    using session_maps_fetched_ideas [of mem_services a_dto a_session alice "start 5 5"
        alice_hydrated] r
    by blast
qed

subsection \<open>Failures\<close>

text \<open>
  C5. Neither callback handles an error. When a credits call or a store query fails,
  the invocation ends with that failure, the calls issued are those up to and
  including the failing one, and the session object carries only the stores made
  before it. For the session callback with a user: a failing balance call, a failing
  saved-ideas query, a failing authored-ideas query; without a user: a failing
  authored-ideas query; for \<^verbatim>\<open>createUser\<close>: a failing balance call (no reward call is
  attempted), and a failing reward call.
\<close>

theorem failures_propagate:
  "(user s = Some su \<and> balance svc (id_u u) (world st) = (Inl e, w1) \<longrightarrow>
      session_cb svc dto s u st =
        \<lparr>result = Inl e,
         session_after = s\<lparr>user := Some (su\<lparr>id_s := id_u u\<rparr>)\<rparr>,
         io_after = \<lparr>world = w1, calls = calls st @ [Balance (id_u u)]\<rparr>\<rparr>) \<and>
   (user s = Some su \<and> balance svc (id_u u) (world st) = (Inr b, w1) \<and>
    findMany svc (saved_args u) w1 = (Inl e, w2) \<longrightarrow>
      session_cb svc dto s u st =
        \<lparr>result = Inl e,
         session_after = s\<lparr>user := Some (su\<lparr>id_s := id_u u, credits := b\<rparr>)\<rparr>,
         io_after = \<lparr>world = w2,
           calls = calls st @ [Balance (id_u u), FindMany (saved_args u)]\<rparr>\<rparr>) \<and>
   (user s = Some su \<and> balance svc (id_u u) (world st) = (Inr b, w1) \<and>
    findMany svc (saved_args u) w1 = (Inr saved, w2) \<and>
    findMany svc (authored_args u) w2 = (Inl e, w3) \<longrightarrow>
      session_cb svc dto s u st =
        \<lparr>result = Inl e,
         session_after = s\<lparr>user := Some (su\<lparr>id_s := id_u u, credits := b,
           savedIdeas := map (\<lambda>idea. dto idea True) saved\<rparr>)\<rparr>,
         io_after = \<lparr>world = w3,
           calls = calls st @ [Balance (id_u u), FindMany (saved_args u),
             FindMany (authored_args u)]\<rparr>\<rparr>) \<and>
   (user s = None \<and> findMany svc (authored_args u) (world st) = (Inl e, w1) \<longrightarrow>
      session_cb svc dto s u st =
        \<lparr>result = Inl e, session_after = s,
         io_after = \<lparr>world = w1, calls = calls st @ [FindMany (authored_args u)]\<rparr>\<rparr>) \<and>
   (balance svc (id_u (user_m m)) (world st) = (Inl e, w1) \<longrightarrow>
      createUser svc m st =
        (Inl e, \<lparr>world = w1, calls = calls st @ [Balance (id_u (user_m m))]\<rparr>)) \<and>
   (balance svc (id_u (user_m m)) (world st) = (Inr 0, w1) \<and>
    reward svc (id_u (user_m m)) 3 w1 = (Inl e, w2) \<longrightarrow>
      createUser svc m st =
        (Inl e, \<lparr>world = w2, calls = calls st @
           [Balance (id_u (user_m m)), Reward (id_u (user_m m)) 3]\<rparr>))"
proof (intro conjI impI)
  assume "user s = Some su \<and> balance svc (id_u u) (world st) = (Inl e, w1)"
  then show "session_cb svc dto s u st =
        \<lparr>result = Inl e,
         session_after = s\<lparr>user := Some (su\<lparr>id_s := id_u u\<rparr>)\<rparr>,
         io_after = \<lparr>world = w1, calls = calls st @ [Balance (id_u u)]\<rparr>\<rparr>"
    by (simp add: session_cb_Some)
next
  assume "user s = Some su \<and> balance svc (id_u u) (world st) = (Inr b, w1) \<and>
    findMany svc (saved_args u) w1 = (Inl e, w2)"
  then show "session_cb svc dto s u st =
        \<lparr>result = Inl e,
         session_after = s\<lparr>user := Some (su\<lparr>id_s := id_u u, credits := b\<rparr>)\<rparr>,
         io_after = \<lparr>world = w2,
           calls = calls st @ [Balance (id_u u), FindMany (saved_args u)]\<rparr>\<rparr>"
    by (simp add: session_cb_Some)
next
  assume "user s = Some su \<and> balance svc (id_u u) (world st) = (Inr b, w1) \<and>
    findMany svc (saved_args u) w1 = (Inr saved, w2) \<and>
    findMany svc (authored_args u) w2 = (Inl e, w3)"
  then show "session_cb svc dto s u st =
        \<lparr>result = Inl e,
         session_after = s\<lparr>user := Some (su\<lparr>id_s := id_u u, credits := b,
           savedIdeas := map (\<lambda>idea. dto idea True) saved\<rparr>)\<rparr>,
         io_after = \<lparr>world = w3,
           calls = calls st @ [Balance (id_u u), FindMany (saved_args u),
             FindMany (authored_args u)]\<rparr>\<rparr>"
    by (simp add: session_cb_Some)
next
  assume "user s = None \<and> findMany svc (authored_args u) (world st) = (Inl e, w1)"
  then show "session_cb svc dto s u st =
        \<lparr>result = Inl e, session_after = s,
         io_after = \<lparr>world = w1, calls = calls st @ [FindMany (authored_args u)]\<rparr>\<rparr>"
    by (simp add: session_cb_None)
next
  assume "balance svc (id_u (user_m m)) (world st) = (Inl e, w1)"
  then show "createUser svc m st =
        (Inl e, \<lparr>world = w1, calls = calls st @ [Balance (id_u (user_m m))]\<rparr>)"
    by (simp add: createUser_unfold)
next
  assume "balance svc (id_u (user_m m)) (world st) = (Inr 0, w1) \<and>
    reward svc (id_u (user_m m)) 3 w1 = (Inl e, w2)"
  then show "createUser svc m st =
        (Inl e, \<lparr>world = w2, calls = calls st @
           [Balance (id_u (user_m m)), Reward (id_u (user_m m)) 3]\<rparr>)"
    by (simp add: createUser_unfold)
qed


text \<open>One run of the in-memory instance for each of the six failures.\<close>

theorem failures_propagate_witness:
  "session_cb mem_services a_dto a_session alice (start 0 5) =
     \<lparr>result = Inl (Rejected ''credits''),
      session_after = a_session\<lparr>user := Some (a_session_user\<lparr>id_s := ''alice''\<rparr>)\<rparr>,
      io_after = \<lparr>world = a_world 0 5, calls = [Balance ''alice'']\<rparr>\<rparr> \<and>
   session_cb mem_services a_dto a_session alice (start 5 0) =
     \<lparr>result = Inl (Rejected ''database''),
      session_after = a_session\<lparr>user := Some (a_session_user\<lparr>id_s := ''alice'', credits := 7\<rparr>)\<rparr>,
      io_after = \<lparr>world = a_world 4 0,
        calls = [Balance ''alice'', FindMany (saved_args alice)]\<rparr>\<rparr> \<and>
   session_cb mem_services a_dto a_session alice (start 5 1) =
     \<lparr>result = Inl (Rejected ''database''),
      session_after = a_session\<lparr>user := Some (a_session_user\<lparr>id_s := ''alice'', credits := 7,
        savedIdeas := [(''bob'', [''alice''], True)]\<rparr>)\<rparr>,
      io_after = \<lparr>world = a_world 4 0,
        calls = [Balance ''alice'', FindMany (saved_args alice),
          FindMany (authored_args alice)]\<rparr>\<rparr> \<and>
   session_cb mem_services a_dto no_user_session alice (start 5 0) =
     \<lparr>result = Inl (Rejected ''database''), session_after = no_user_session,
      io_after = \<lparr>world = a_world 5 0, calls = [FindMany (authored_args alice)]\<rparr>\<rparr> \<and>
   createUser mem_services \<lparr>user_m = bob\<rparr> (start 0 5) =
     (Inl (Rejected ''credits''), \<lparr>world = a_world 0 5, calls = [Balance ''bob'']\<rparr>) \<and>
   createUser mem_services \<lparr>user_m = bob\<rparr> (start 1 5) =
     (Inl (Rejected ''credits''),
      \<lparr>world = a_world 0 5, calls = [Balance ''bob'', Reward ''bob'' 3]\<rparr>)"
proof (intro conjI)
  show "session_cb mem_services a_dto a_session alice (start 0 5) =
     \<lparr>result = Inl (Rejected ''credits''),
      session_after = a_session\<lparr>user := Some (a_session_user\<lparr>id_s := ''alice''\<rparr>)\<rparr>,
      io_after = \<lparr>world = a_world 0 5, calls = [Balance ''alice'']\<rparr>\<rparr>"
    using failures_propagate [where svc = mem_services and dto = a_dto and s = a_session
        and su = a_session_user and u = alice and st = "start 0 5"
        and e = "Rejected ''credits''" and ?w1.0 = "a_world 0 5" and b = 7
        and ?w2.0 = "a_world 0 0" and saved = "[]" and ?w3.0 = "a_world 0 0"
        and m = "\<lparr>user_m = bob\<rparr>"]
    by (simp add: run_defs)
next
  show "session_cb mem_services a_dto a_session alice (start 5 0) =
     \<lparr>result = Inl (Rejected ''database''),
      session_after = a_session\<lparr>user := Some (a_session_user\<lparr>id_s := ''alice'', credits := 7\<rparr>)\<rparr>,
      io_after = \<lparr>world = a_world 4 0,
        calls = [Balance ''alice'', FindMany (saved_args alice)]\<rparr>\<rparr>"
    using failures_propagate [where svc = mem_services and dto = a_dto and s = a_session
        and su = a_session_user and u = alice and st = "start 5 0"
        and e = "Rejected ''database''" and ?w1.0 = "a_world 4 0" and b = 7
        and ?w2.0 = "a_world 4 0" and saved = "[]" and ?w3.0 = "a_world 0 0"
        and m = "\<lparr>user_m = bob\<rparr>"]
    by (simp add: run_defs)
next
  show "session_cb mem_services a_dto a_session alice (start 5 1) =
     \<lparr>result = Inl (Rejected ''database''),
      session_after = a_session\<lparr>user := Some (a_session_user\<lparr>id_s := ''alice'', credits := 7,
        savedIdeas := [(''bob'', [''alice''], True)]\<rparr>)\<rparr>,
      io_after = \<lparr>world = a_world 4 0,
        calls = [Balance ''alice'', FindMany (saved_args alice),
          FindMany (authored_args alice)]\<rparr>\<rparr>"
    using failures_propagate [where svc = mem_services and dto = a_dto and s = a_session
        and su = a_session_user and u = alice and st = "start 5 1" and b = 7
        and saved = "[an_idea ''bob'' [''alice'']]"
        and e = "Rejected ''database''" and ?w1.0 = "a_world 4 1" and ?w2.0 = "a_world 4 0"
        and ?w3.0 = "a_world 4 0" and m = "\<lparr>user_m = bob\<rparr>"]
    by (simp add: run_defs)
next
  show "session_cb mem_services a_dto no_user_session alice (start 5 0) =
     \<lparr>result = Inl (Rejected ''database''), session_after = no_user_session,
      io_after = \<lparr>world = a_world 5 0, calls = [FindMany (authored_args alice)]\<rparr>\<rparr>"
    using failures_propagate [where svc = mem_services and dto = a_dto and s = no_user_session
        and su = a_session_user and u = alice and st = "start 5 0"
        and e = "Rejected ''database''" and ?w1.0 = "a_world 5 0" and b = 7
        and ?w2.0 = "a_world 0 0" and saved = "[]" and ?w3.0 = "a_world 0 0"
        and m = "\<lparr>user_m = bob\<rparr>"]
    by (simp add: run_defs)
next
  show "createUser mem_services \<lparr>user_m = bob\<rparr> (start 0 5) =
     (Inl (Rejected ''credits''), \<lparr>world = a_world 0 5, calls = [Balance ''bob'']\<rparr>)"
    using failures_propagate [where svc = mem_services and dto = a_dto and s = a_session
        and su = a_session_user and u = alice and st = "start 0 5"
        and e = "Rejected ''credits''" and ?w1.0 = "a_world 0 5" and b = 7
        and ?w2.0 = "a_world 0 0" and saved = "[]" and ?w3.0 = "a_world 0 0"
        and m = "\<lparr>user_m = bob\<rparr>"]
    by (simp add: run_defs)
next
  show "createUser mem_services \<lparr>user_m = bob\<rparr> (start 1 5) =
     (Inl (Rejected ''credits''),
      \<lparr>world = a_world 0 5, calls = [Balance ''bob'', Reward ''bob'' 3]\<rparr>)"
    using failures_propagate [where svc = mem_services and dto = a_dto and s = a_session
        and su = a_session_user and u = alice and st = "start 1 5"
        and e = "Rejected ''credits''" and ?w1.0 = "a_world 0 5" and b = 7
        and ?w2.0 = "a_world 0 5" and saved = "[]" and ?w3.0 = "a_world 0 0"
        and m = "\<lparr>user_m = bob\<rparr>"]
    by (simp add: run_defs)
qed

subsection \<open>What the session callback leaves untouched\<close>

text \<open>
  C6. After every invocation of the session callback, whether it returned or failed,
  the session object differs from the input at most in the user's \<^verbatim>\<open>id\<close>,
  \<^verbatim>\<open>credits\<close>, \<^verbatim>\<open>savedIdeas\<close> and \<^verbatim>\<open>ideas\<close>: \<^verbatim>\<open>expires\<close> and every further
  field of the session are unchanged, a user is present after exactly when one was
  present before, and the user's \<^verbatim>\<open>name\<close>, \<^verbatim>\<open>email\<close>, \<^verbatim>\<open>image\<close> and every further
  field of the user are unchanged. A returned session is that object.
\<close>

theorem session_frame:
  fixes svc dto u st and s :: "('dto, 'x, 'y) session_scheme"
  defines "r \<equiv> session_cb svc dto s u st"
  shows "expires (session_after r) = expires s \<and>
    session.more (session_after r) = session.more s \<and>
    (user (session_after r) = None \<longleftrightarrow> user s = None) \<and>
    (\<forall>su. user s = Some su \<longrightarrow>
       (\<exists>su'. user (session_after r) = Some su' \<and>
          name_s su' = name_s su \<and> email_s su' = email_s su \<and> image_s su' = image_s su \<and>
          session_user.more su' = session_user.more su)) \<and>
    (\<forall>s'. result r = Inr s' \<longrightarrow> s' = session_after r)"
proof (cases "user s")
  case None
  then show ?thesis
    unfolding r_def by (simp add: session_cb_None split: prod.splits sum.splits)
next
  case (Some su)
  then show ?thesis
    unfolding r_def by (simp add: session_cb_Some split: prod.splits sum.splits)
qed

text \<open>The hydrated session of \<open>alice\<close> keeps its expiry, name, email and image.\<close>

theorem session_frame_witness:
  "session_after (session_cb mem_services a_dto a_session alice (start 5 5)) = alice_hydrated \<and>
   expires alice_hydrated = ''2030-01-01'' \<and>
   session.more alice_hydrated = () \<and>
   (\<exists>su'. user alice_hydrated = Some su' \<and> name_s su' = Some ''Alice'' \<and>
      email_s su' = None \<and> image_s su' = Some ''a.png'' \<and> session_user.more su' = ())"
  using session_frame [where svc = mem_services and dto = a_dto and s = a_session
      and u = alice and st = "start 5 5"]
  unfolding run_alice
  by (simp add: alice_hydrated_def a_session_def a_session_user_def)

subsection \<open>The calls of the session callback\<close>

text \<open>An invocation that returns has issued all three.\<close>

lemma session_calls_returned:
  assumes "result (session_cb svc dto s u st) = Inr s'"
  shows "calls (io_after (session_cb svc dto s u st)) = calls st @ all_calls u"
proof (cases "user s")
  case None
  with assms show ?thesis
    by (simp add: session_cb_None split: prod.splits sum.splits)
next
  case (Some su)
  with assms show ?thesis
    by (auto simp add: session_cb_Some all_calls_def split: prod.splits sum.splits)
qed

text \<open>
  C7, as amended. Every invocation with a user present issues its own calls, in the
  order credit balance, saved ideas, authored ideas, each in the world the call before
  it left, and stops at the first call that fails: a rejected balance call is the only
  call issued, a rejected saved-ideas query is the second and last call, and a rejected
  authored-ideas query is the third; each ends the invocation with its rejection. An
  invocation in which no call fails returns, and has issued exactly one balance call
  and exactly two idea queries, as has every invocation that returns. Nothing is
  cached: a second invocation on the returned session, in the world the first one
  left, issues the three calls again.
\<close>

theorem session_calls_in_order:
  fixes svc dto u st and s :: "('dto, 'x, 'y) session_scheme"
  defines "r \<equiv> session_cb svc dto s u st"
  assumes "user s \<noteq> None"
  shows "(\<forall>e w1.
       balance svc (id_u u) (world st) = (Inl e, w1) \<longrightarrow>
       result r = Inl e \<and>
       io_after r = \<lparr>world = w1, calls = calls st @ [Balance (id_u u)]\<rparr>) \<and>
    (\<forall>b w1 e w2.
       balance svc (id_u u) (world st) = (Inr b, w1) \<and>
       findMany svc (saved_args u) w1 = (Inl e, w2) \<longrightarrow>
       result r = Inl e \<and>
       io_after r =
         \<lparr>world = w2, calls = calls st @ [Balance (id_u u), FindMany (saved_args u)]\<rparr>) \<and>
    (\<forall>b w1 saved w2 e w3.
       balance svc (id_u u) (world st) = (Inr b, w1) \<and>
       findMany svc (saved_args u) w1 = (Inr saved, w2) \<and>
       findMany svc (authored_args u) w2 = (Inl e, w3) \<longrightarrow>
       result r = Inl e \<and>
       io_after r = \<lparr>world = w3, calls = calls st @ all_calls u\<rparr>) \<and>
    (\<forall>b w1 saved w2 authored w3.
       balance svc (id_u u) (world st) = (Inr b, w1) \<and>
       findMany svc (saved_args u) w1 = (Inr saved, w2) \<and>
       findMany svc (authored_args u) w2 = (Inr authored, w3) \<longrightarrow>
       (\<exists>s'. result r = Inr s') \<and>
       io_after r = \<lparr>world = w3, calls = calls st @ all_calls u\<rparr>) \<and>
    (\<forall>s'. result r = Inr s' \<longrightarrow> calls (io_after r) = calls st @ all_calls u) \<and>
    (\<forall>s1 s2. result r = Inr s1 \<and> result (session_cb svc dto s1 u (io_after r)) = Inr s2 \<longrightarrow>
       calls (io_after (session_cb svc dto s1 u (io_after r))) =
         calls st @ all_calls u @ all_calls u)"
proof (intro conjI allI impI)
  from assms(2) obtain su where su: "user s = Some su" by auto
  {
    fix e w1
    assume "balance svc (id_u u) (world st) = (Inl e, w1)"
    with su show "result r = Inl e"
      and "io_after r = \<lparr>world = w1, calls = calls st @ [Balance (id_u u)]\<rparr>"
      unfolding r_def by (simp_all add: session_cb_Some)
  }
  {
    fix b w1 e w2
    assume "balance svc (id_u u) (world st) = (Inr b, w1) \<and>
       findMany svc (saved_args u) w1 = (Inl e, w2)"
    with su show "result r = Inl e"
      and "io_after r =
         \<lparr>world = w2, calls = calls st @ [Balance (id_u u), FindMany (saved_args u)]\<rparr>"
      unfolding r_def by (simp_all add: session_cb_Some)
  }
  {
    fix b w1 saved w2 e w3
    assume "balance svc (id_u u) (world st) = (Inr b, w1) \<and>
       findMany svc (saved_args u) w1 = (Inr saved, w2) \<and>
       findMany svc (authored_args u) w2 = (Inl e, w3)"
    with su show "result r = Inl e"
      and "io_after r = \<lparr>world = w3, calls = calls st @ all_calls u\<rparr>"
      unfolding r_def by (simp_all add: session_cb_Some all_calls_def)
  }
  {
    fix b w1 saved w2 authored w3
    assume "balance svc (id_u u) (world st) = (Inr b, w1) \<and>
       findMany svc (saved_args u) w1 = (Inr saved, w2) \<and>
       findMany svc (authored_args u) w2 = (Inr authored, w3)"
    with su show "\<exists>s'. result r = Inr s'"
      and "io_after r = \<lparr>world = w3, calls = calls st @ all_calls u\<rparr>"
      unfolding r_def by (simp_all add: session_cb_Some all_calls_def)
  }
  {
    fix s'
    assume "result r = Inr s'"
    then show "calls (io_after r) = calls st @ all_calls u"
      unfolding r_def by (rule session_calls_returned)
  }
  {
    fix s1 s2
    assume "result r = Inr s1 \<and> result (session_cb svc dto s1 u (io_after r)) = Inr s2"
    then have "calls (io_after r) = calls st @ all_calls u"
      and "calls (io_after (session_cb svc dto s1 u (io_after r))) =
        calls (io_after r) @ all_calls u"
      unfolding r_def by (auto dest: session_calls_returned)
    then show "calls (io_after (session_cb svc dto s1 u (io_after r))) =
         calls st @ all_calls u @ all_calls u"
      by simp
  }
qed

text \<open>
  C7 as stated fails: with a user present and the credits service down, the callback
  issues the balance call and no idea query.
\<close>

theorem session_calls_balance_rejected:
  "user a_session \<noteq> None \<and>
   calls (io_after (session_cb mem_services a_dto a_session alice (start 0 5))) =
     [Balance ''alice''] \<and>
   calls (io_after (session_cb mem_services a_dto a_session alice (start 0 5))) \<noteq>
     calls (start 0 5) @ all_calls alice"
  unfolding run_credits_down
  by (simp add: all_calls_def a_session_def start_def alice_def)

text \<open>Two invocations for \<open>alice\<close> in a row issue the three calls twice.\<close>

theorem session_calls_in_order_witness:
  "user a_session \<noteq> None \<and>
   result (session_cb mem_services a_dto a_session alice (start 0 5)) =
     Inl (Rejected ''credits'') \<and>
   io_after (session_cb mem_services a_dto a_session alice (start 0 5)) =
     \<lparr>world = a_world 0 5, calls = [Balance ''alice'']\<rparr> \<and>
   result (session_cb mem_services a_dto a_session alice (start 5 0)) =
     Inl (Rejected ''database'') \<and>
   io_after (session_cb mem_services a_dto a_session alice (start 5 0)) =
     \<lparr>world = a_world 4 0, calls = [Balance ''alice'', FindMany (saved_args alice)]\<rparr> \<and>
   result (session_cb mem_services a_dto a_session alice (start 5 1)) =
     Inl (Rejected ''database'') \<and>
   io_after (session_cb mem_services a_dto a_session alice (start 5 1)) =
     \<lparr>world = a_world 4 0,
      calls = [Balance ''alice'', FindMany (saved_args alice), FindMany (authored_args alice)]\<rparr> \<and>
   result (session_cb mem_services a_dto a_session alice (start 5 5)) = Inr alice_hydrated \<and>
   io_after (session_cb mem_services a_dto a_session alice (start 5 5)) =
     \<lparr>world = a_world 4 3,
      calls = [Balance ''alice'', FindMany (saved_args alice), FindMany (authored_args alice)]\<rparr> \<and>
   calls (io_after (session_cb mem_services a_dto alice_hydrated alice
     (io_after (session_cb mem_services a_dto a_session alice (start 5 5))))) =
     [Balance ''alice'', FindMany (saved_args alice), FindMany (authored_args alice),
      Balance ''alice'', FindMany (saved_args alice), FindMany (authored_args alice)]"
proof -
  have u: "user a_session \<noteq> None"
    by (simp add: a_session_def)
  have c: "calls (start c d) = []" "id_u alice = ''alice''" "all_calls alice =
      [Balance ''alice'', FindMany (saved_args alice), FindMany (authored_args alice)]"
    for c d
    by (simp_all add: start_def all_calls_def alice_def)
  have f1: "balance mem_services (id_u alice) (world (start 0 5)) =
      (Inl (Rejected ''credits''), a_world 0 5)"
    by (simp add: run_defs)
  have f2: "balance mem_services (id_u alice) (world (start 5 0)) = (Inr 7, a_world 4 0) \<and>
      findMany mem_services (saved_args alice) (a_world 4 0) =
        (Inl (Rejected ''database''), a_world 4 0)"
    by (simp add: run_defs)
  have f3: "balance mem_services (id_u alice) (world (start 5 1)) = (Inr 7, a_world 4 1) \<and>
      findMany mem_services (saved_args alice) (a_world 4 1) =
        (Inr [an_idea ''bob'' [''alice'']], a_world 4 0) \<and>
      findMany mem_services (authored_args alice) (a_world 4 0) =
        (Inl (Rejected ''database''), a_world 4 0)"
    by (simp add: run_defs)
  have f4: "balance mem_services (id_u alice) (world (start 5 5)) = (Inr 7, a_world 4 5) \<and>
      findMany mem_services (saved_args alice) (a_world 4 5) =
        (Inr [an_idea ''bob'' [''alice'']], a_world 4 4) \<and>
      findMany mem_services (authored_args alice) (a_world 4 4) =
        (Inr [an_idea ''alice'' [''bob''], an_idea ''alice'' [],
              an_idea ''alice'' [''bob'', ''carol'']], a_world 4 3)"
    by (simp add: run_defs)
  have r1: "result (session_cb mem_services a_dto a_session alice (start 5 5)) =
      Inr alice_hydrated"
    by (simp add: run_alice)
  have r2: "result (session_cb mem_services a_dto alice_hydrated alice
      (io_after (session_cb mem_services a_dto a_session alice (start 5 5)))) =
      Inr alice_hydrated"
    by (simp add: run_alice run_alice_again)
  note t = session_calls_in_order [OF u, where svc = mem_services and dto = a_dto
      and u = alice]
  from t [where st = "start 0 5", THEN conjunct1, rule_format, OF f1]
  have g1: "result (session_cb mem_services a_dto a_session alice (start 0 5)) =
      Inl (Rejected ''credits'') \<and>
    io_after (session_cb mem_services a_dto a_session alice (start 0 5)) =
      \<lparr>world = a_world 0 5, calls = calls (start 0 5) @ [Balance (id_u alice)]\<rparr>"
    by simp
  from t [where st = "start 5 0", THEN conjunct2, THEN conjunct1, rule_format, OF f2]
  have g2: "result (session_cb mem_services a_dto a_session alice (start 5 0)) =
      Inl (Rejected ''database'') \<and>
    io_after (session_cb mem_services a_dto a_session alice (start 5 0)) =
      \<lparr>world = a_world 4 0,
       calls = calls (start 5 0) @ [Balance (id_u alice), FindMany (saved_args alice)]\<rparr>"
    by simp
  from t [where st = "start 5 1", THEN conjunct2, THEN conjunct2, THEN conjunct1,
      rule_format, OF f3]
  have g3: "result (session_cb mem_services a_dto a_session alice (start 5 1)) =
      Inl (Rejected ''database'') \<and>
    io_after (session_cb mem_services a_dto a_session alice (start 5 1)) =
      \<lparr>world = a_world 4 0, calls = calls (start 5 1) @ all_calls alice\<rparr>"
    by simp
  from t [where st = "start 5 5", THEN conjunct2, THEN conjunct2, THEN conjunct2,
      THEN conjunct1, rule_format, OF f4]
  have g4: "io_after (session_cb mem_services a_dto a_session alice (start 5 5)) =
      \<lparr>world = a_world 4 3, calls = calls (start 5 5) @ all_calls alice\<rparr>"
    by simp
  from t [where st = "start 5 5", THEN conjunct2, THEN conjunct2, THEN conjunct2,
      THEN conjunct2, THEN conjunct2, rule_format, OF conjI [OF r1 r2]]
  have g5: "calls (io_after (session_cb mem_services a_dto alice_hydrated alice
      (io_after (session_cb mem_services a_dto a_session alice (start 5 5))))) =
      calls (start 5 5) @ all_calls alice @ all_calls alice"
    by simp
  from u r1 g1 g2 g3 g4 g5 show ?thesis
    by (simp add: c)
qed

subsection \<open>A session without a user\<close>



subsection \<open>The GitHub profile mapping\<close>

text \<open>
  The decimal numeral determines the integer, so \<^verbatim>\<open>toString\<close> keeps distinct safe
  integers distinct.
\<close>

lemma below_ten: "d < 10 \<Longrightarrow> d \<in> {0, 1, 2, 3, 4, 5, 6, 7, 8, 9::nat}"
  by auto

lemma digit_inj:
  assumes "a < 10" and "b < 10" and "digit a = digit b"
  shows "a = b"
  using below_ten [OF assms(1)] below_ten [OF assms(2)] assms(3)
  by (auto simp add: digit_def)

lemma digit_not_minus: "d < 10 \<Longrightarrow> digit d \<noteq> CHR ''-''"
  using below_ten [of d] by (auto simp add: digit_def)

lemma digits_not_empty: "digits n \<noteq> []"
  by (subst digits.simps) simp

lemma hd_digits_not_minus: "hd (digits n) \<noteq> CHR ''-''"
proof (induction n rule: digits.induct)
  case (1 n)
  show ?case
  proof (cases "n < 10")
    case True
    then show ?thesis
      by (subst digits.simps) (simp add: digit_not_minus)
  next
    case False
    with 1 show ?thesis
      by (subst digits.simps) (simp add: digits_not_empty)
  qed
qed

lemma digits_inj: "digits a = digits b \<Longrightarrow> a = b"
proof (induction a arbitrary: b rule: digits.induct)
  case (1 a)
  show ?case
  proof (cases "a < 10")
    case a_small: True
    show ?thesis
    proof (cases "b < 10")
      case True
      with a_small "1.prems" show ?thesis
        by (auto simp add: digits.simps [of a] digits.simps [of b] intro: digit_inj)
    next
      case False
      with a_small "1.prems" have "[] = digits (b div 10)"
        by (simp add: digits.simps [of a] digits.simps [of b])
      with digits_not_empty [of "b div 10"] show ?thesis by simp
    qed
  next
    case a_big: False
    show ?thesis
    proof (cases "b < 10")
      case True
      with a_big "1.prems" have "digits (a div 10) = []"
        by (simp add: digits.simps [of a] digits.simps [of b])
      with digits_not_empty [of "a div 10"] show ?thesis by simp
    next
      case False
      with a_big "1.prems" have
        d: "digits (a div 10) = digits (b div 10)" and m: "digit (a mod 10) = digit (b mod 10)"
        by (simp_all add: digits.simps [of a] digits.simps [of b])
      from "1.IH" [OF a_big d] have "a div 10 = b div 10" .
      moreover from m have "a mod 10 = b mod 10"
        by (intro digit_inj) simp_all
      ultimately show ?thesis
        by (metis div_mult_mod_eq)
    qed
  qed
qed

lemma decimal_inj: "decimal i = decimal j \<Longrightarrow> i = j"
proof -
  assume eq: "decimal i = decimal j"
  have neg: "decimal k = CHR ''-'' # digits (nat (- k))" if "k < 0" for k
    using that by (simp add: decimal_def)
  have pos: "decimal k = digits (nat k)" if "\<not> k < 0" for k
    using that by (simp add: decimal_def)
  consider "i < 0" "j < 0" | "i < 0" "\<not> j < 0" | "\<not> i < 0" "j < 0" | "\<not> i < 0" "\<not> j < 0"
    by blast
  then show ?thesis
  proof cases
    case 1
    with eq have "digits (nat (- i)) = digits (nat (- j))" by (simp add: neg)
    then have "nat (- i) = nat (- j)" by (rule digits_inj)
    with 1 show ?thesis by simp
  next
    case 2
    with eq have "digits (nat j) = CHR ''-'' # digits (nat (- i))"
      using neg [of i] pos [of j] by simp
    then have "hd (digits (nat j)) = CHR ''-''" by simp
    with hd_digits_not_minus show ?thesis by blast
  next
    case 3
    with eq have "digits (nat i) = CHR ''-'' # digits (nat (- j))"
      using neg [of j] pos [of i] by simp
    then have "hd (digits (nat i)) = CHR ''-''" by simp
    with hd_digits_not_minus show ?thesis by blast
  next
    case 4
    with eq have "digits (nat i) = digits (nat j)" by (simp add: pos)
    then have "nat i = nat j" by (rule digits_inj)
    with 4 show ?thesis by simp
  qed
qed

lemma toString_inj:
  "safe_integer i \<Longrightarrow> safe_integer j \<Longrightarrow> toString printed i = toString printed j \<Longrightarrow> i = j"
  by (simp add: toString_def decimal_inj)

text \<open>
  C9. The mapping turns the numeric profile id into a string with \<^verbatim>\<open>toString\<close>: for an
  id in the safe integer range the user's id is the decimal numeral of the profile id,
  and two such profiles with the same user id have the same profile id. It takes the
  name from \<^verbatim>\<open>profile.name\<close> when that is truthy (a non-empty string) and from
  \<^verbatim>\<open>profile.login\<close> otherwise, and takes the email and the image from
  \<^verbatim>\<open>profile.email\<close> and \<^verbatim>\<open>profile.avatar_url\<close> as they are.
\<close>

theorem profile_mapping:
  "id_o (profile printed p) = toString printed (id_p p) \<and>
   (safe_integer (id_p p) \<longrightarrow>
      id_o (profile printed p) =
        (if id_p p < 0 then CHR ''-'' # digits (nat (- id_p p)) else digits (nat (id_p p)))) \<and>
   (\<forall>q. safe_integer (id_p p) \<and> safe_integer (id_p q) \<and>
      id_o (profile printed p) = id_o (profile printed q) \<longrightarrow> id_p p = id_p q) \<and>
   name_o (profile printed p) =
     (case name_p p of None \<Rightarrow> login p | Some n \<Rightarrow> if n = [] then login p else n) \<and>
   (truthy_string (name_p p) \<longrightarrow> name_p p = Some (name_o (profile printed p))) \<and>
   (\<not> truthy_string (name_p p) \<longrightarrow> name_o (profile printed p) = login p) \<and>
   email_o (profile printed p) = email_p p \<and>
   image_o (profile printed p) = avatar_url p"
proof -
  have "id_p p = id_p q"
    if "safe_integer (id_p p)" "safe_integer (id_p q)"
      "id_o (profile printed p) = id_o (profile printed q)" for q
    using that by (auto simp add: profile_def dest: toString_inj)
  then show ?thesis
    by (auto simp add: profile_def toString_def decimal_def truthy_string_def
        split: option.splits)
qed

text \<open>
  A profile with a name, one with an empty name and one with no name; the ids are
  safe integers, the last of them the largest one.
\<close>

theorem profile_mapping_witness:
  "safe_integer 583231 \<and> safe_integer 42 \<and> safe_integer 9007199254740991 \<and>
   profile (\<lambda>i. ''?'') \<lparr>id_p = 583231, name_p = Some ''The Octocat'', login = ''octocat'',
      email_p = Some ''octocat@github.com'', avatar_url = ''https://a/u/583231''\<rparr> =
     \<lparr>id_o = ''583231'', name_o = ''The Octocat'', email_o = Some ''octocat@github.com'',
      image_o = ''https://a/u/583231''\<rparr> \<and>
   profile (\<lambda>i. ''?'') \<lparr>id_p = 42, name_p = Some [], login = ''ghost'', email_p = None,
      avatar_url = ''https://a/u/42''\<rparr> =
     \<lparr>id_o = ''42'', name_o = ''ghost'', email_o = None, image_o = ''https://a/u/42''\<rparr> \<and>
   profile (\<lambda>i. ''?'') \<lparr>id_p = 9007199254740991, name_p = None, login = ''seven'',
      email_p = None, avatar_url = ''https://a/u/7''\<rparr> =
     \<lparr>id_o = ''9007199254740991'', name_o = ''seven'', email_o = None,
      image_o = ''https://a/u/7''\<rparr>"
proof -
  have s: "safe_integer 583231" "safe_integer 42" "safe_integer 9007199254740991"
    by (simp_all add: safe_integer_def)
  have d: "digits 583231 = ''583231''" "digits 42 = ''42''"
    "digits 9007199254740991 = ''9007199254740991''"
    by (simp_all add: digits.simps digit_def)
  have p1: "profile (\<lambda>i. ''?'') \<lparr>id_p = 583231, name_p = Some ''The Octocat'',
      login = ''octocat'', email_p = Some ''octocat@github.com'',
      avatar_url = ''https://a/u/583231''\<rparr> =
     \<lparr>id_o = ''583231'', name_o = ''The Octocat'', email_o = Some ''octocat@github.com'',
      image_o = ''https://a/u/583231''\<rparr>"
    apply (rule provider_user.equality)
    using profile_mapping [of "\<lambda>i. ''?''" "\<lparr>id_p = 583231, name_p = Some ''The Octocat'',
        login = ''octocat'', email_p = Some ''octocat@github.com'',
        avatar_url = ''https://a/u/583231''\<rparr>"]
    by (simp_all add: s d truthy_string_def toString_def decimal_def)
  have p2: "profile (\<lambda>i. ''?'') \<lparr>id_p = 42, name_p = Some [], login = ''ghost'',
      email_p = None, avatar_url = ''https://a/u/42''\<rparr> =
     \<lparr>id_o = ''42'', name_o = ''ghost'', email_o = None, image_o = ''https://a/u/42''\<rparr>"
    apply (rule provider_user.equality)
    using profile_mapping [of "\<lambda>i. ''?''" "\<lparr>id_p = 42, name_p = Some [], login = ''ghost'',
        email_p = None, avatar_url = ''https://a/u/42''\<rparr>"]
    by (simp_all add: s d truthy_string_def toString_def decimal_def)
  have p3: "profile (\<lambda>i. ''?'') \<lparr>id_p = 9007199254740991, name_p = None, login = ''seven'',
      email_p = None, avatar_url = ''https://a/u/7''\<rparr> =
     \<lparr>id_o = ''9007199254740991'', name_o = ''seven'', email_o = None,
      image_o = ''https://a/u/7''\<rparr>"
    apply (rule provider_user.equality)
    using profile_mapping [of "\<lambda>i. ''?''" "\<lparr>id_p = 9007199254740991, name_p = None,
        login = ''seven'', email_p = None, avatar_url = ''https://a/u/7''\<rparr>"]
    by (simp_all add: s d truthy_string_def toString_def decimal_def)
  from s p1 p2 p3 show ?thesis by blast
qed

subsection \<open>The session's user id\<close>

text \<open>
  C10. On every session read with a user present, the callback overwrites
  \<^verbatim>\<open>session.user.id\<close> with the id of the adapter's database user, whatever id the
  session held: the session object carries that id after the invocation, returned or
  failed, and so does every returned session.
\<close>

theorem session_overwrites_id:
  fixes svc dto u st and s :: "('dto, 'x, 'y) session_scheme"
  defines "r \<equiv> session_cb svc dto s u st"
  assumes "user s \<noteq> None"
  shows "(\<exists>su'. user (session_after r) = Some su' \<and> id_s su' = id_u u) \<and>
    (\<forall>s'. result r = Inr s' \<longrightarrow> (\<exists>su'. user s' = Some su' \<and> id_s su' = id_u u))"
proof -
  from assms(2) obtain su where "user s = Some su" by auto
  then show ?thesis
    unfolding r_def by (simp add: session_cb_Some split: prod.splits sum.splits)
qed

text \<open>
  The session held the id \<open>stale\<close>; after the invocation for \<open>alice\<close> it holds hers, also
  when the balance call fails.
\<close>

theorem session_overwrites_id_witness:
  "user a_session \<noteq> None \<and>
   map_option id_s (user a_session) = Some ''stale'' \<and>
   result (session_cb mem_services a_dto a_session alice (start 5 5)) = Inr alice_hydrated \<and>
   map_option id_s (user alice_hydrated) = Some ''alice'' \<and>
   map_option id_s
     (user (session_after (session_cb mem_services a_dto a_session alice (start 0 5)))) =
     Some ''alice''"
proof -
  have u: "user a_session \<noteq> None" "map_option id_s (user a_session) = Some ''stale''"
    by (simp_all add: a_session_def a_session_user_def)
  have r: "result (session_cb mem_services a_dto a_session alice (start 5 5)) =
      Inr alice_hydrated"
    by (simp add: run_alice)
  have i: "id_u alice = ''alice''"
    by (simp add: alice_def)
  from session_overwrites_id [OF u(1), where svc = mem_services and dto = a_dto
      and u = alice and st = "start 5 5"]
    session_overwrites_id [OF u(1), where svc = mem_services and dto = a_dto
      and u = alice and st = "start 0 5"] r u i
  show ?thesis by auto
qed

end
